theory Spec2Isabelle
  imports Main
begin

section \<open>Build configuration, fatal checks and debug logging\<close>

text \<open>
  The macros \<^verbatim>\<open>DCHECK\<close>, \<^verbatim>\<open>NOTREACHED\<close>, \<^verbatim>\<open>DLOG\<close> and \<^verbatim>\<open>DLOG_IS_ON\<close> come from
  \<^verbatim>\<open>base/logging.h\<close>, which is not part of the repository.  Whether they are compiled
  in is a property of the build, so it is a parameter of every modelled function:
  \<open>DCHECK_IS_ON\<close> says whether a \<^verbatim>\<open>DCHECK\<close> evaluates its condition, and
  \<open>DLOG_IS_ON\<close> says for which severities a \<^verbatim>\<open>DLOG\<close> statement is active.
  A failed \<^verbatim>\<open>DCHECK\<close> and a reached \<^verbatim>\<open>NOTREACHED\<close> are fatal: the call does not
  return, which the model writes as the \<open>Inl\<close> branch of the result.
\<close>

datatype LogSeverity = INFO | WARNING | FATAL

record BuildConfig =
  DCHECK_IS_ON :: bool
  DLOG_IS_ON :: "LogSeverity \<Rightarrow> bool"

datatype fatal = DCheckFailed | NotReached

definition and_then :: "fatal + 'a \<Rightarrow> ('a \<Rightarrow> fatal + 'b) \<Rightarrow> fatal + 'b" where
  "and_then r f = (case r of Inl e \<Rightarrow> Inl e | Inr x \<Rightarrow> f x)"

definition DCHECK :: "BuildConfig \<Rightarrow> bool \<Rightarrow> fatal + unit" where
  "DCHECK cfg condition =
     (if DCHECK_IS_ON cfg \<and> \<not> condition then Inl DCheckFailed else Inr ())"

definition NOTREACHED :: "BuildConfig \<Rightarrow> fatal + unit" where
  "NOTREACHED cfg = (if DCHECK_IS_ON cfg then Inl NotReached else Inr ())"

section \<open>The application lifecycle (basis/application/application.cc)\<close>

text \<open>
  The enumeration is declared in \<^verbatim>\<open>application.hpp\<close>; the source file names these six
  enumerators, \<^verbatim>\<open>kApplicationStateTotal\<close> being the count sentinel that the code
  asserts never to hold.
\<close>

datatype ApplicationState =
    kApplicationStatePreloading
  | kApplicationStateStarted
  | kApplicationStatePaused
  | kApplicationStateSuspended
  | kApplicationStateStopped
  | kApplicationStateTotal

text \<open>
  \<^verbatim>\<open>base::WaitableEvent\<close> (Chromium base) as a flag with its reset policy.  A wait on
  a signaled event succeeds at once and, under the automatic policy, consumes the
  signal; a wait on an unsignaled event, with nobody signaling meanwhile, runs into
  the timeout and fails.  The timeout is a \<^verbatim>\<open>base::TimeDelta\<close>, a signed count of
  microseconds.
\<close>

datatype ResetPolicy = MANUAL | AUTOMATIC

datatype InitialState = SIGNALED | NOT_SIGNALED

record WaitableEvent =
  reset_policy :: ResetPolicy
  signaled :: bool

definition WaitableEvent_ctor :: "ResetPolicy \<Rightarrow> InitialState \<Rightarrow> WaitableEvent" where
  "WaitableEvent_ctor policy initial =
     \<lparr>reset_policy = policy, signaled = (initial = SIGNALED)\<rparr>"

definition Signal :: "WaitableEvent \<Rightarrow> WaitableEvent" where
  "Signal ev = ev\<lparr>signaled := True\<rparr>"

definition Reset :: "WaitableEvent \<Rightarrow> WaitableEvent" where
  "Reset ev = ev\<lparr>signaled := False\<rparr>"

definition TimedWait :: "int \<Rightarrow> WaitableEvent \<Rightarrow> bool \<times> WaitableEvent" where
  "TimedWait timeout ev =
     (if signaled ev
      then (True, if reset_policy ev = AUTOMATIC then ev\<lparr>signaled := False\<rparr> else ev)
      else (False, ev))"

text \<open>
  What an observer is told, and what the debug log holds.  A log message is kept by
  its content (the states it prints) rather than by its text.
\<close>

datatype Notification = onStateChange ApplicationState | onFocusChange bool

datatype LogMessage =
    AttemptToReenter ApplicationState
  | StateTransition ApplicationState ApplicationState

text \<open>
  The object.  The members \<^verbatim>\<open>application_state_\<close>, \<^verbatim>\<open>observers_\<close> and
  \<^verbatim>\<open>app_loaded_\<close> lose their trailing underscore, which a HOL name cannot end in.
  \<open>observers\<close> is the content of the thread-safe observer list;
  \<open>posted\<close> records, per observer, the notifications \<^verbatim>\<open>observers_->Notify\<close> has
  posted to it, oldest first; \<open>dlog\<close> is the debug log.  All calls are made on the
  one sequence the object is bound to, so \<^verbatim>\<open>DCHECK_CALLED_ON_VALID_SEQUENCE\<close> holds
  and is not modelled, and neither is tracing.
\<close>

record 'o Application =
  application_state :: ApplicationState
  observers :: "'o set"
  app_loaded :: WaitableEvent
  posted :: "'o \<Rightarrow> Notification list"
  dlog :: "(LogSeverity \<times> LogMessage) list"

text \<open>
  The constructor's member initialisers.  The initial value of
  \<open>application_state\<close> is given in the header, so it is a parameter here.
\<close>

definition Application_ctor :: "ApplicationState \<Rightarrow> 'o Application" where
  "Application_ctor initial_state =
     \<lparr>application_state = initial_state,
      observers = {},
      app_loaded = WaitableEvent_ctor MANUAL NOT_SIGNALED,
      posted = (\<lambda>_. []),
      dlog = []\<rparr>"

definition DLOG :: "BuildConfig \<Rightarrow> LogSeverity \<Rightarrow> LogMessage \<Rightarrow> 'o Application \<Rightarrow> 'o Application" where
  "DLOG cfg severity msg app =
     (if DLOG_IS_ON cfg severity then app\<lparr>dlog := dlog app @ [(severity, msg)]\<rparr> else app)"

definition Notify :: "Notification \<Rightarrow> 'o Application \<Rightarrow> 'o Application" where
  "Notify n app =
     app\<lparr>posted := (\<lambda>ob. if ob \<in> observers app then posted app ob @ [n] else posted app ob)\<rparr>"

definition notifyStateChange :: "ApplicationState \<Rightarrow> 'o Application \<Rightarrow> 'o Application" where
  "notifyStateChange state app = Notify (onStateChange state) app"

definition notifyFocusChange :: "bool \<Rightarrow> 'o Application \<Rightarrow> 'o Application" where
  "notifyFocusChange has_focus app = Notify (onFocusChange has_focus) app"

definition HasFocus :: "BuildConfig \<Rightarrow> ApplicationState \<Rightarrow> fatal + bool" where
  "HasFocus cfg state =
     (case state of
        kApplicationStateStarted \<Rightarrow> Inr True
      | kApplicationStatePreloading \<Rightarrow> Inr False
      | kApplicationStatePaused \<Rightarrow> Inr False
      | kApplicationStateSuspended \<Rightarrow> Inr False
      | kApplicationStateStopped \<Rightarrow> Inr False
      | kApplicationStateTotal \<Rightarrow> and_then (NOTREACHED cfg) (\<lambda>_. Inr False))"

text \<open>
  The block "Audit that the transitions are correct" of \<^verbatim>\<open>setApplicationState\<close>:
  the switch over the previous state, entered when \<^verbatim>\<open>DLOG_IS_ON(FATAL)\<close>.
\<close>

definition auditTransition :: "BuildConfig \<Rightarrow> ApplicationState \<Rightarrow> ApplicationState \<Rightarrow> fatal + unit" where
  "auditTransition cfg previous state =
     (if DLOG_IS_ON cfg FATAL then
        (case previous of
           kApplicationStatePaused \<Rightarrow>
             DCHECK cfg (state = kApplicationStateSuspended \<or> state = kApplicationStateStarted)
         | kApplicationStatePreloading \<Rightarrow>
             DCHECK cfg (state = kApplicationStateSuspended \<or> state = kApplicationStateStarted)
         | kApplicationStateStarted \<Rightarrow>
             DCHECK cfg (state = kApplicationStatePaused)
         | kApplicationStateStopped \<Rightarrow>
             DCHECK cfg (state = kApplicationStatePreloading \<or> state = kApplicationStateStarted)
         | kApplicationStateSuspended \<Rightarrow>
             DCHECK cfg (state = kApplicationStatePaused \<or> state = kApplicationStateStopped)
         | kApplicationStateTotal \<Rightarrow> NOTREACHED cfg)
      else Inr ())"

definition setApplicationState ::
    "BuildConfig \<Rightarrow> ApplicationState \<Rightarrow> 'o Application \<Rightarrow> fatal + 'o Application" where
  "setApplicationState cfg state app =
     (if application_state app = state then
        Inr (DLOG cfg WARNING (AttemptToReenter (application_state app)) app)
      else
        and_then (auditTransition cfg (application_state app) state) (\<lambda>_.
        and_then (HasFocus cfg (application_state app)) (\<lambda>old_has_focus.
        let app1 = DLOG cfg INFO (StateTransition (application_state app) state) app;
            app2 = app1\<lparr>application_state := state\<rparr>
        in
        and_then (DCHECK cfg (application_state app2 \<noteq> kApplicationStateTotal)) (\<lambda>_.
        let app3 = notifyStateChange (application_state app2) app2 in
        and_then (HasFocus cfg (application_state app3)) (\<lambda>has_focus.
        let focus_changed = (has_focus \<noteq> old_has_focus) in
        if focus_changed then Inr (notifyFocusChange has_focus app3) else Inr app3)))))"

definition Application_dtor :: "BuildConfig \<Rightarrow> 'o Application \<Rightarrow> fatal + unit" where
  "Application_dtor cfg app =
     DCHECK cfg (application_state app = kApplicationStateStopped)"

definition initialize :: "BuildConfig \<Rightarrow> 'o Application \<Rightarrow> fatal + 'o Application" where
  "initialize cfg app =
     and_then (DCHECK cfg (application_state app = kApplicationStatePreloading)) (\<lambda>_. Inr app)"

definition teardown :: "BuildConfig \<Rightarrow> 'o Application \<Rightarrow> fatal + 'o Application" where
  "teardown cfg app = setApplicationState cfg kApplicationStateStopped app"

definition pause :: "BuildConfig \<Rightarrow> 'o Application \<Rightarrow> fatal + 'o Application" where
  "pause cfg app = and_then (NOTREACHED cfg) (\<lambda>_. Inr app)"

definition start :: "BuildConfig \<Rightarrow> 'o Application \<Rightarrow> fatal + 'o Application" where
  "start cfg app =
     and_then (DCHECK cfg (application_state app = kApplicationStatePreloading)) (\<lambda>_.
     setApplicationState cfg kApplicationStateStarted app)"

definition suspend :: "BuildConfig \<Rightarrow> 'o Application \<Rightarrow> fatal + 'o Application" where
  "suspend cfg app =
     and_then
       (if application_state app \<noteq> kApplicationStatePaused
        then setApplicationState cfg kApplicationStatePaused app
        else Inr app) (\<lambda>app1.
     and_then (setApplicationState cfg kApplicationStateSuspended app1) (\<lambda>app2.
     Inr (app2\<lparr>app_loaded := Reset (app_loaded app2)\<rparr>)))"

definition waitForLoad :: "int \<Rightarrow> 'o Application \<Rightarrow> bool \<times> 'o Application" where
  "waitForLoad timeout app =
     (case TimedWait timeout (app_loaded app) of
        (result, ev) \<Rightarrow> (result, app\<lparr>app_loaded := ev\<rparr>))"

definition signalOnLoad :: "'o Application \<Rightarrow> 'o Application" where
  "signalOnLoad app = app\<lparr>app_loaded := Signal (app_loaded app)\<rparr>"

definition resume :: "BuildConfig \<Rightarrow> 'o Application \<Rightarrow> fatal + 'o Application" where
  "resume cfg app = and_then (NOTREACHED cfg) (\<lambda>_. Inr app)"

definition getApplicationState :: "BuildConfig \<Rightarrow> 'o Application \<Rightarrow> fatal + ApplicationState" where
  "getApplicationState cfg app =
     and_then (DCHECK cfg (application_state app \<noteq> kApplicationStateTotal)) (\<lambda>_.
     Inr (application_state app))"

subsection \<open>Two builds and an object to run the code on\<close>

definition debug_build :: BuildConfig where
  "debug_build = \<lparr>DCHECK_IS_ON = True, DLOG_IS_ON = (\<lambda>_. True)\<rparr>"

definition release_build :: BuildConfig where
  "release_build = \<lparr>DCHECK_IS_ON = False, DLOG_IS_ON = (\<lambda>_. False)\<rparr>"

definition app_in :: "ApplicationState \<Rightarrow> nat Application" where
  "app_in s = (Application_ctor s)\<lparr>observers := {1, 2}\<rparr>"

subsection \<open>Notions used to state the properties\<close>

text \<open>
  The audit can reject a transition only in a build where its switch is entered and
  its checks are compiled in.  \<open>state_after\<close> reads the application state off the
  result of a call.  \<open>spec_allowed\<close> is the set of transitions the specification
  lists: the six named ones and every transition into Stopped.
\<close>

definition audit_enabled :: "BuildConfig \<Rightarrow> bool" where
  "audit_enabled cfg = (DLOG_IS_ON cfg FATAL \<and> DCHECK_IS_ON cfg)"

definition state_after :: "fatal + 'o Application \<Rightarrow> fatal + ApplicationState" where
  "state_after r = (case r of Inl e \<Rightarrow> Inl e | Inr app \<Rightarrow> Inr (application_state app))"

definition spec_allowed :: "ApplicationState \<Rightarrow> ApplicationState \<Rightarrow> bool" where
  "spec_allowed s t =
     ((s, t) \<in> {(kApplicationStatePreloading, kApplicationStateStarted),
                (kApplicationStateStarted, kApplicationStatePaused),
                (kApplicationStatePaused, kApplicationStateSuspended),
                (kApplicationStatePaused, kApplicationStateStarted),
                (kApplicationStateSuspended, kApplicationStatePaused),
                (kApplicationStateSuspended, kApplicationStateStopped)}
      \<or> t = kApplicationStateStopped)"

text \<open>
  A caller waiting for the loaded signal several times in a row, with the given
  timeouts; the results are listed in call order.
\<close>

fun waitForLoad_each :: "int list \<Rightarrow> 'o Application \<Rightarrow> bool list \<times> 'o Application" where
  "waitForLoad_each [] app = ([], app)"
| "waitForLoad_each (t # ts) app =
     (case waitForLoad t app of (r, app1) \<Rightarrow>
        (case waitForLoad_each ts app1 of (rs, app2) \<Rightarrow> (r # rs, app2)))"

subsection \<open>Basic facts\<close>

lemma and_then_Inr [simp]: "and_then (Inr x) f = f x"
  by (simp add: and_then_def)

lemma and_then_Inl [simp]: "and_then (Inl e) f = Inl e"
  by (simp add: and_then_def)

lemma auditTransition_iff:
  "auditTransition cfg s t = Inr () \<longleftrightarrow>
     \<not> audit_enabled cfg \<or>
     (s, t) \<in> {(kApplicationStatePaused, kApplicationStateSuspended),
                (kApplicationStatePaused, kApplicationStateStarted),
                (kApplicationStatePreloading, kApplicationStateSuspended),
                (kApplicationStatePreloading, kApplicationStateStarted),
                (kApplicationStateStarted, kApplicationStatePaused),
                (kApplicationStateStopped, kApplicationStatePreloading),
                (kApplicationStateStopped, kApplicationStateStarted),
                (kApplicationStateSuspended, kApplicationStatePaused),
                (kApplicationStateSuspended, kApplicationStateStopped)}"
  by (cases s; cases t; simp add: auditTransition_def audit_enabled_def DCHECK_def NOTREACHED_def)

lemma auditTransition_fails:
  "auditTransition cfg s t \<noteq> Inr () \<Longrightarrow> s \<noteq> kApplicationStateTotal \<Longrightarrow> auditTransition cfg s t = Inl DCheckFailed"
  by (cases s; simp add: auditTransition_def  DCHECK_def NOTREACHED_def split: if_splits)

lemma HasFocus_real:
  "s \<noteq> kApplicationStateTotal \<Longrightarrow> HasFocus cfg s = Inr (s = kApplicationStateStarted)"
  by (cases s; simp add: HasFocus_def)

lemma HasFocus_Inr:
  "HasFocus cfg s = Inr b \<Longrightarrow> b = (s = kApplicationStateStarted)"
  by (cases s; simp add: HasFocus_def NOTREACHED_def split: if_splits)

lemma setApplicationState_change:
  assumes "application_state app \<noteq> s" and "application_state app \<noteq> kApplicationStateTotal"
    and "s \<noteq> kApplicationStateTotal"
  shows "setApplicationState cfg s app =
     and_then (auditTransition cfg (application_state app) s) (\<lambda>_.
       Inr (app\<lparr>application_state := s,
                posted := (\<lambda>ob. posted app ob @
                   (if ob \<in> observers app
                    then onStateChange s #
                      (if (application_state app = kApplicationStateStarted) \<noteq> (s = kApplicationStateStarted)
                       then [onFocusChange (s = kApplicationStateStarted)] else [])
                    else [])),
                dlog := dlog app @
                   (if DLOG_IS_ON cfg INFO then [(INFO, StateTransition (application_state app) s)] else [])\<rparr>))"
  using assms
  by (cases "auditTransition cfg (application_state app) s")
     (auto simp add: setApplicationState_def HasFocus_real DCHECK_def DLOG_def Let_def
        notifyStateChange_def notifyFocusChange_def Notify_def fun_eq_iff)

lemma setApplicationState_Inr:
  assumes "setApplicationState cfg s app = Inr app'" and "application_state app \<noteq> s"
  shows "application_state app' = s \<and> observers app' = observers app \<and> app_loaded app' = app_loaded app \<and>
         (\<forall>ob. posted app' ob = posted app ob @
           (if ob \<in> observers app
            then onStateChange s #
              (if (application_state app = kApplicationStateStarted) \<noteq> (s = kApplicationStateStarted)
               then [onFocusChange (s = kApplicationStateStarted)] else [])
            else []))"
  using assms
  by (auto simp add: setApplicationState_def and_then_def DCHECK_def DLOG_def Let_def
        notifyStateChange_def notifyFocusChange_def Notify_def 
        split: sum.splits if_splits dest!: HasFocus_Inr)

lemma app_in_simps [simp]:
  "application_state (app_in s) = s" "observers (app_in s) = {1, 2}"
  "posted (app_in s) = (\<lambda>_. [])" "dlog (app_in s) = []"
  "app_loaded (app_in s) = \<lparr>reset_policy = MANUAL, signaled = False\<rparr>"
  by (simp_all add: app_in_def Application_ctor_def WaitableEvent_ctor_def)

lemma builds_simps [simp]:
  "DCHECK_IS_ON debug_build" "DLOG_IS_ON debug_build sev"
  "\<not> DCHECK_IS_ON release_build" "\<not> DLOG_IS_ON release_build sev"
  by (simp_all add: debug_build_def release_build_def)

lemma audit_enabled_builds [simp]: "audit_enabled debug_build" "\<not> audit_enabled release_build"
  by (simp_all add: audit_enabled_def debug_build_def release_build_def)

lemma suspend_two_transitions:
  assumes "application_state app \<in> {kApplicationStateStarted, kApplicationStateSuspended} \<or>
           (\<not> audit_enabled cfg \<and>
            application_state app \<in> {kApplicationStatePreloading, kApplicationStateStopped})"
  shows "\<exists>app'. suspend cfg app = Inr app' \<and>
           application_state app' = kApplicationStateSuspended \<and>
           app_loaded app' = Reset (app_loaded app) \<and>
           (\<forall>ob. posted app' ob = posted app ob @
              (if ob \<in> observers app
               then onStateChange kApplicationStatePaused #
                 (if application_state app = kApplicationStateStarted
                  then [onFocusChange False] else []) @
                 [onStateChange kApplicationStateSuspended]
               else []))"
proof -
  let ?s = "application_state app"
  from assms have a1: "auditTransition cfg ?s kApplicationStatePaused = Inr ()"
    by (auto simp add: auditTransition_iff)
  have a2: "auditTransition cfg kApplicationStatePaused kApplicationStateSuspended = Inr ()"
    by (simp add: auditTransition_iff)
  from assms have ne: "?s \<noteq> kApplicationStatePaused" "?s \<noteq> kApplicationStateTotal"
    by auto
  show ?thesis
    using ne a1 a2
    by (simp add: suspend_def setApplicationState_change)
qed

lemma suspend_from_Paused:
  assumes "application_state app = kApplicationStatePaused"
  shows "\<exists>app'. suspend cfg app = Inr app' \<and>
           application_state app' = kApplicationStateSuspended \<and>
           app_loaded app' = Reset (app_loaded app) \<and>
           (\<forall>ob. posted app' ob = posted app ob @
              (if ob \<in> observers app then [onStateChange kApplicationStateSuspended] else []))"
proof -
  have a2: "auditTransition cfg kApplicationStatePaused kApplicationStateSuspended = Inr ()"
    by (simp add: auditTransition_iff)
  show ?thesis
    using assms a2
    by (simp add: suspend_def setApplicationState_change)
qed

lemma suspend_audit_fails:
  assumes "audit_enabled cfg"
    and "application_state app \<in> {kApplicationStatePreloading, kApplicationStateStopped}"
  shows "suspend cfg app = Inl DCheckFailed"
proof -
  let ?s = "application_state app"
  from assms have "auditTransition cfg ?s kApplicationStatePaused \<noteq> Inr ()"
    by (auto simp add: auditTransition_iff)
  with assms have "auditTransition cfg ?s kApplicationStatePaused = Inl DCheckFailed"
    by (auto simp add: auditTransition_fails)
  with assms show ?thesis
    by (auto simp add: suspend_def setApplicationState_change)
qed

lemma waitForLoad_after_Reset:
  "app_loaded app' = Reset ev \<Longrightarrow>
   \<not> fst (waitForLoad t app') \<and> fst (waitForLoad t (signalOnLoad app'))"
  by (simp add: waitForLoad_def signalOnLoad_def Reset_def Signal_def TimedWait_def)

lemma waitForLoad_manual:
  "reset_policy (app_loaded app) = MANUAL \<Longrightarrow>
   waitForLoad t app = (signaled (app_loaded app), app)"
  by (simp add: waitForLoad_def TimedWait_def)

lemma waitForLoad_each_manual:
  "reset_policy (app_loaded app) = MANUAL \<Longrightarrow>
   waitForLoad_each ts app = (replicate (length ts) (signaled (app_loaded app)), app)"
  by (induction ts) (simp_all add: waitForLoad_manual)

lemma Application_ctor_manual: "reset_policy (app_loaded (Application_ctor s)) = MANUAL"
  by (simp add: Application_ctor_def WaitableEvent_ctor_def)

lemma setApplicationState_app_loaded:
  "setApplicationState cfg s app = Inr app' \<Longrightarrow> app_loaded app' = app_loaded app"
  by (auto simp add: setApplicationState_def and_then_def DCHECK_def DLOG_def Let_def
        notifyStateChange_def notifyFocusChange_def Notify_def
        split: sum.splits if_splits)

lemma suspend_manual:
  "suspend cfg app = Inr app' \<Longrightarrow> reset_policy (app_loaded app') = reset_policy (app_loaded app)"
  by (auto simp add: suspend_def and_then_def Reset_def split: sum.splits if_splits
        dest!: setApplicationState_app_loaded)

lemma signalOnLoad_fields [simp]:
  "application_state (signalOnLoad app) = application_state app"
  "observers (signalOnLoad app) = observers app"
  "posted (signalOnLoad app) = posted app"
  "reset_policy (app_loaded (signalOnLoad app)) = reset_policy (app_loaded app)"
  "signaled (app_loaded (signalOnLoad app))"
  by (simp_all add: signalOnLoad_def Signal_def)

subsection \<open>Properties of the lifecycle\<close>

text \<open>C4: a call of \<^verbatim>\<open>setApplicationState\<close> with the state the application is
  already in, whichever of the states that is and in every build, returns normally;
  the application state, the observer list, the loaded signal and every observer's
  notifications are as before (no state-change and no focus-change notification is
  posted), and the only effect is one warning appended to the debug log, when
  warnings are logged.\<close>

theorem setApplicationState_reenter:
  "setApplicationState cfg (application_state app) app =
     Inr (app\<lparr>dlog := dlog app @
            (if DLOG_IS_ON cfg WARNING
             then [(WARNING, AttemptToReenter (application_state app))] else [])\<rparr>)"
  by (simp add: setApplicationState_def DLOG_def)

text \<open>C1, as the code has it: Stopped is not absorbing.  When the application is
  in Stopped and a different state (one of the five lifecycle states) is requested,
  the call adopts the requested state, except that a request for Paused or Suspended
  fails the audit's check in a build where the audit is enabled.  In particular
  the audit itself lists Preloading and Started as the transitions out of Stopped,
  and these succeed in every build.\<close>

theorem setApplicationState_from_Stopped:
  "application_state app = kApplicationStateStopped \<Longrightarrow>
   s \<notin> {kApplicationStateStopped, kApplicationStateTotal} \<Longrightarrow>
   state_after (setApplicationState cfg s app) =
     (if audit_enabled cfg \<and> s \<in> {kApplicationStatePaused, kApplicationStateSuspended}
      then Inl DCheckFailed else Inr s)"
proof -
  assume st: "application_state app = kApplicationStateStopped"
    and s: "s \<notin> {kApplicationStateStopped, kApplicationStateTotal}"
  show ?thesis
  proof (cases "auditTransition cfg kApplicationStateStopped s = Inr ()")
    case True
    with st s show ?thesis
      using auditTransition_iff [of cfg kApplicationStateStopped s]
      by (auto simp add: setApplicationState_change state_after_def)
  next
    case False
    then have "auditTransition cfg kApplicationStateStopped s = Inl DCheckFailed"
      by (simp add: auditTransition_fails)
    with st s False show ?thesis
      using auditTransition_iff [of cfg kApplicationStateStopped s]
      by (cases s) (auto simp add: setApplicationState_change state_after_def)
  qed
qed

theorem setApplicationState_from_Stopped_witness:
  "application_state (app_in kApplicationStateStopped) = kApplicationStateStopped \<and>
   kApplicationStatePaused \<notin> {kApplicationStateStopped, kApplicationStateTotal} \<and>
   state_after (setApplicationState debug_build kApplicationStatePaused
                  (app_in kApplicationStateStopped)) = Inl DCheckFailed \<and>
   state_after (setApplicationState release_build kApplicationStatePaused
                  (app_in kApplicationStateStopped)) = Inr kApplicationStatePaused"
  using setApplicationState_from_Stopped [of "app_in kApplicationStateStopped" kApplicationStatePaused debug_build]
        setApplicationState_from_Stopped [of "app_in kApplicationStateStopped" kApplicationStatePaused release_build]
  by simp

text \<open>The claim C1 as the specification states it fails: in a debug build the
  request for Started made in Stopped passes the audit and leaves Stopped.\<close>

theorem Stopped_not_absorbing:
  "application_state (app_in kApplicationStateStopped) = kApplicationStateStopped \<and>
   kApplicationStateStarted \<noteq> kApplicationStateStopped \<and>
   state_after (setApplicationState debug_build kApplicationStateStarted
                  (app_in kApplicationStateStopped)) = Inr kApplicationStateStarted"
  by (simp add: setApplicationState_change auditTransition_def DCHECK_def state_after_def)

text \<open>C2, as the code has it: in a build where the audit is enabled it accepts a
  transition exactly when it is one of Paused to Suspended, Paused to Started,
  Preloading to Suspended, Preloading to Started, Started to Paused, Stopped to
  Preloading, Stopped to Started, Suspended to Paused and Suspended to Stopped; in
  any other build it rejects nothing.  Consequently \<^verbatim>\<open>teardown()\<close>, called in one of
  the five lifecycle states, returns exactly when the audit is not enabled or the
  state is Suspended (the one audited transition into Stopped) or already Stopped
  (a re-entry, which the audit does not see).\<close>

theorem auditTransition_accepts:
  "(auditTransition cfg s t = Inr () \<longleftrightarrow>
      \<not> audit_enabled cfg \<or>
      (s, t) \<in> {(kApplicationStatePaused, kApplicationStateSuspended),
                 (kApplicationStatePaused, kApplicationStateStarted),
                 (kApplicationStatePreloading, kApplicationStateSuspended),
                 (kApplicationStatePreloading, kApplicationStateStarted),
                 (kApplicationStateStarted, kApplicationStatePaused),
                 (kApplicationStateStopped, kApplicationStatePreloading),
                 (kApplicationStateStopped, kApplicationStateStarted),
                 (kApplicationStateSuspended, kApplicationStatePaused),
                 (kApplicationStateSuspended, kApplicationStateStopped)}) \<and>
   (application_state app \<noteq> kApplicationStateTotal \<longrightarrow>
      ((\<exists>app'. teardown cfg app = Inr app') \<longleftrightarrow>
         \<not> audit_enabled cfg \<or>
         application_state app \<in> {kApplicationStateSuspended, kApplicationStateStopped}))"
proof (intro conjI impI)
  show "auditTransition cfg s t = Inr () \<longleftrightarrow>
      \<not> audit_enabled cfg \<or>
      (s, t) \<in> {(kApplicationStatePaused, kApplicationStateSuspended),
                 (kApplicationStatePaused, kApplicationStateStarted),
                 (kApplicationStatePreloading, kApplicationStateSuspended),
                 (kApplicationStatePreloading, kApplicationStateStarted),
                 (kApplicationStateStarted, kApplicationStatePaused),
                 (kApplicationStateStopped, kApplicationStatePreloading),
                 (kApplicationStateStopped, kApplicationStateStarted),
                 (kApplicationStateSuspended, kApplicationStatePaused),
                 (kApplicationStateSuspended, kApplicationStateStopped)}"
    by (rule auditTransition_iff)
next
  assume nt: "application_state app \<noteq> kApplicationStateTotal"
  show "(\<exists>app'. teardown cfg app = Inr app') \<longleftrightarrow>
         \<not> audit_enabled cfg \<or>
         application_state app \<in> {kApplicationStateSuspended, kApplicationStateStopped}"
  proof (cases "application_state app = kApplicationStateStopped")
    case True
    then show ?thesis
      by (simp add: teardown_def setApplicationState_def)
  next
    case False
    then have "(\<exists>app'. teardown cfg app = Inr app') \<longleftrightarrow>
        auditTransition cfg (application_state app) kApplicationStateStopped = Inr ()"
      using nt
      by (cases "auditTransition cfg (application_state app) kApplicationStateStopped")
         (simp_all add: teardown_def setApplicationState_change)
    with False show ?thesis
      by (simp add: auditTransition_iff)
  qed
qed

theorem auditTransition_accepts_witness:
  "application_state (app_in kApplicationStateSuspended) \<noteq> kApplicationStateTotal \<and>
   (\<exists>app'. teardown debug_build (app_in kApplicationStateSuspended) = Inr app') \<and>
   application_state (app_in kApplicationStatePaused) \<noteq> kApplicationStateTotal \<and>
   \<not> (\<exists>app'. teardown debug_build (app_in kApplicationStatePaused) = Inr app')"
  using auditTransition_accepts [of debug_build _ _ "app_in kApplicationStateSuspended"]
        auditTransition_accepts [of debug_build _ _ "app_in kApplicationStatePaused"]
  by simp

text \<open>The claim C2 as the specification states it fails in both directions: Started
  to Stopped is in the specification's set and the audit rejects it, so that
  \<^verbatim>\<open>teardown()\<close> in Started dies in the audit; Preloading to Suspended is outside
  the specification's set and the audit accepts it.\<close>

theorem audit_not_spec_allowed:
  "kApplicationStateStarted \<noteq> kApplicationStateStopped \<and>
   spec_allowed kApplicationStateStarted kApplicationStateStopped \<and>
   auditTransition debug_build kApplicationStateStarted kApplicationStateStopped = Inl DCheckFailed \<and>
   teardown debug_build (app_in kApplicationStateStarted) = Inl DCheckFailed \<and>
   kApplicationStatePreloading \<noteq> kApplicationStateSuspended \<and>
   \<not> spec_allowed kApplicationStatePreloading kApplicationStateSuspended \<and>
   auditTransition debug_build kApplicationStatePreloading kApplicationStateSuspended = Inr ()"
  by (simp add: spec_allowed_def auditTransition_def debug_build_def DCHECK_def teardown_def
        setApplicationState_def)

text \<open>C3: \<^verbatim>\<open>HasFocus\<close> yields true for Started and for no other state.  Whenever
  \<^verbatim>\<open>setApplicationState\<close> returns from a request for a state other than the current
  one, the application is in the requested state, and every registered observer has
  been posted the state-change notification with the new state, followed by exactly
  one focus-change notification (carrying the new focus) if the focus of the old
  and of the new state differ, and by none otherwise; an unregistered observer is
  posted nothing.  The call does return whenever the audit accepts the transition
  and neither state is the sentinel.\<close>

theorem setApplicationState_notifies:
  "(HasFocus cfg st = Inr True \<longleftrightarrow> st = kApplicationStateStarted) \<and>
   (setApplicationState cfg s app = Inr app' \<and> application_state app \<noteq> s \<longrightarrow>
      application_state app' = s \<and>
      observers app' = observers app \<and>
      (\<forall>ob. posted app' ob = posted app ob @
         (if ob \<in> observers app
          then onStateChange s #
            (if (application_state app = kApplicationStateStarted) \<noteq> (s = kApplicationStateStarted)
             then [onFocusChange (s = kApplicationStateStarted)] else [])
          else []))) \<and>
   (application_state app \<noteq> s \<and> application_state app \<noteq> kApplicationStateTotal \<and>
    s \<noteq> kApplicationStateTotal \<and>
    auditTransition cfg (application_state app) s = Inr () \<longrightarrow>
      (\<exists>app'. setApplicationState cfg s app = Inr app'))"
proof (intro conjI impI)
  show "HasFocus cfg st = Inr True \<longleftrightarrow> st = kApplicationStateStarted"
    by (cases st) (simp_all add: HasFocus_def NOTREACHED_def)
next
  assume "application_state app \<noteq> s \<and> application_state app \<noteq> kApplicationStateTotal \<and>
    s \<noteq> kApplicationStateTotal \<and>
    auditTransition cfg (application_state app) s = Inr ()"
  then show "\<exists>app'. setApplicationState cfg s app = Inr app'"
    by (simp add: setApplicationState_change)
next
  assume a: "setApplicationState cfg s app = Inr app' \<and> application_state app \<noteq> s"
  from a setApplicationState_Inr [of cfg s app app']
  show "application_state app' = s" by blast
  from a setApplicationState_Inr [of cfg s app app']
  show "observers app' = observers app" by blast
  from a setApplicationState_Inr [of cfg s app app']
  show "\<forall>ob. posted app' ob = posted app ob @
         (if ob \<in> observers app
          then onStateChange s #
            (if (application_state app = kApplicationStateStarted) \<noteq> (s = kApplicationStateStarted)
             then [onFocusChange (s = kApplicationStateStarted)] else [])
          else [])" by blast
qed

theorem setApplicationState_notifies_witness:
  "\<exists>app'. setApplicationState debug_build kApplicationStatePaused (app_in kApplicationStateStarted) = Inr app' \<and>
      application_state (app_in kApplicationStateStarted) \<noteq> kApplicationStatePaused \<and>
      application_state app' = kApplicationStatePaused \<and>
      posted app' 1 = [onStateChange kApplicationStatePaused, onFocusChange False] \<and>
      posted app' 2 = [onStateChange kApplicationStatePaused, onFocusChange False] \<and>
      posted app' 3 = []"
proof -
  have "\<exists>app'. setApplicationState debug_build kApplicationStatePaused (app_in kApplicationStateStarted) = Inr app'"
    by (simp add: setApplicationState_change auditTransition_def DCHECK_def)
  then obtain app' where
    r: "setApplicationState debug_build kApplicationStatePaused (app_in kApplicationStateStarted) = Inr app'"
    by blast
  from r setApplicationState_notifies [of debug_build kApplicationStateStarted kApplicationStatePaused
      "app_in kApplicationStateStarted" app']
  show ?thesis by simp
qed

text \<open>C7: the loaded signal is a flag one can wait on.  The constructor makes it
  a manual-reset event, initially unsignaled, and no method changes the policy.
  For such an object \<^verbatim>\<open>waitForLoad\<close> returns whether the signal is set (true after
  \<^verbatim>\<open>signalOnLoad\<close>, false when the wait ends by the timeout with the signal unset)
  and leaves the object as it was; after \<^verbatim>\<open>signalOnLoad\<close> every one of any number of
  subsequent waits returns true; and once the signal has been reset a wait returns
  false again.\<close>

theorem loaded_signal_is_flag:
  "reset_policy (app_loaded app) = MANUAL \<Longrightarrow>
     fst (waitForLoad t app) = signaled (app_loaded app) \<and>
     snd (waitForLoad t app) = app \<and>
     fst (waitForLoad_each ts (signalOnLoad app)) = replicate (length ts) True \<and>
     \<not> fst (waitForLoad t (app\<lparr>app_loaded := Reset (app_loaded (signalOnLoad app))\<rparr>))"
proof -
  assume m: "reset_policy (app_loaded app) = MANUAL"
  then have m': "reset_policy (app_loaded (signalOnLoad app)) = MANUAL"
    by simp
  have s: "signaled (app_loaded (signalOnLoad app))"
    by simp
  from m have "waitForLoad t app = (signaled (app_loaded app), app)"
    by (rule waitForLoad_manual)
  moreover from m' s have "waitForLoad_each ts (signalOnLoad app) =
      (replicate (length ts) True, signalOnLoad app)"
    by (simp add: waitForLoad_each_manual)
  moreover have "\<not> fst (waitForLoad t (app\<lparr>app_loaded := Reset (app_loaded (signalOnLoad app))\<rparr>))"
    by (simp add: waitForLoad_def TimedWait_def Reset_def)
  ultimately show ?thesis by simp
qed

theorem loaded_signal_is_flag_witness:
  "reset_policy (app_loaded (Application_ctor kApplicationStatePreloading :: nat Application)) = MANUAL \<and>
   \<not> fst (waitForLoad 5 (Application_ctor kApplicationStatePreloading :: nat Application)) \<and>
   fst (waitForLoad_each [5, 0, 7]
          (signalOnLoad (Application_ctor kApplicationStatePreloading :: nat Application))) =
     [True, True, True]"
  using loaded_signal_is_flag [of "Application_ctor kApplicationStatePreloading :: nat Application" 5 "[5, 0, 7]"]
  by (simp add: Application_ctor_def WaitableEvent_ctor_def)

text \<open>C8, as the code has it: started in Started or Suspended, and started in
  Preloading or Stopped in a build where the audit is not enabled, \<^verbatim>\<open>suspend()\<close>
  performs two transitions, to Paused and then to Suspended, each posting its
  state-change notification to every registered observer (the first also the
  focus-change notification when the start was Started); started in Paused it
  performs the one transition to Suspended.  In each of these cases it returns with
  the loaded signal reset: a following \<^verbatim>\<open>waitForLoad\<close> returns false, and true again
  once \<^verbatim>\<open>signalOnLoad\<close> has been called.  Started in Preloading or Stopped in a build
  where the audit is enabled, it dies in the audit of the transition to Paused.\<close>

theorem suspend_transitions:
  "(application_state app \<in> {kApplicationStateStarted, kApplicationStateSuspended} \<or>
    (\<not> audit_enabled cfg \<and>
     application_state app \<in> {kApplicationStatePreloading, kApplicationStateStopped}) \<longrightarrow>
      (\<exists>app'. suspend cfg app = Inr app' \<and>
         application_state app' = kApplicationStateSuspended \<and>
         (\<forall>ob. posted app' ob = posted app ob @
            (if ob \<in> observers app
             then onStateChange kApplicationStatePaused #
               (if application_state app = kApplicationStateStarted
                then [onFocusChange False] else []) @
               [onStateChange kApplicationStateSuspended]
             else [])) \<and>
         \<not> fst (waitForLoad t app') \<and> fst (waitForLoad t (signalOnLoad app')))) \<and>
   (application_state app = kApplicationStatePaused \<longrightarrow>
      (\<exists>app'. suspend cfg app = Inr app' \<and>
         application_state app' = kApplicationStateSuspended \<and>
         (\<forall>ob. posted app' ob = posted app ob @
            (if ob \<in> observers app then [onStateChange kApplicationStateSuspended] else [])) \<and>
         \<not> fst (waitForLoad t app') \<and> fst (waitForLoad t (signalOnLoad app')))) \<and>
   (audit_enabled cfg \<and>
    application_state app \<in> {kApplicationStatePreloading, kApplicationStateStopped} \<longrightarrow>
      suspend cfg app = Inl DCheckFailed)"
proof (intro conjI impI)
  assume "application_state app \<in> {kApplicationStateStarted, kApplicationStateSuspended} \<or>
    (\<not> audit_enabled cfg \<and>
     application_state app \<in> {kApplicationStatePreloading, kApplicationStateStopped})"
  from suspend_two_transitions [OF this]
  obtain app' where r: "suspend cfg app = Inr app'"
      "application_state app' = kApplicationStateSuspended"
      "app_loaded app' = Reset (app_loaded app)"
      "\<forall>ob. posted app' ob = posted app ob @
            (if ob \<in> observers app
             then onStateChange kApplicationStatePaused #
               (if application_state app = kApplicationStateStarted
                then [onFocusChange False] else []) @
               [onStateChange kApplicationStateSuspended]
             else [])"
    by blast
  from r(3) have "\<not> fst (waitForLoad t app') \<and> fst (waitForLoad t (signalOnLoad app'))"
    by (rule waitForLoad_after_Reset)
  with r(1,2,4)
  show "\<exists>app'. suspend cfg app = Inr app' \<and>
         application_state app' = kApplicationStateSuspended \<and>
         (\<forall>ob. posted app' ob = posted app ob @
            (if ob \<in> observers app
             then onStateChange kApplicationStatePaused #
               (if application_state app = kApplicationStateStarted
                then [onFocusChange False] else []) @
               [onStateChange kApplicationStateSuspended]
             else [])) \<and>
         \<not> fst (waitForLoad t app') \<and> fst (waitForLoad t (signalOnLoad app'))"
    by blast
next
  assume "application_state app = kApplicationStatePaused"
  from suspend_from_Paused [OF this]
  obtain app' where r: "suspend cfg app = Inr app'"
      "application_state app' = kApplicationStateSuspended"
      "app_loaded app' = Reset (app_loaded app)"
      "\<forall>ob. posted app' ob = posted app ob @
            (if ob \<in> observers app then [onStateChange kApplicationStateSuspended] else [])"
    by blast
  from r(3) have "\<not> fst (waitForLoad t app') \<and> fst (waitForLoad t (signalOnLoad app'))"
    by (rule waitForLoad_after_Reset)
  with r(1,2,4)
  show "\<exists>app'. suspend cfg app = Inr app' \<and>
         application_state app' = kApplicationStateSuspended \<and>
         (\<forall>ob. posted app' ob = posted app ob @
            (if ob \<in> observers app then [onStateChange kApplicationStateSuspended] else [])) \<and>
         \<not> fst (waitForLoad t app') \<and> fst (waitForLoad t (signalOnLoad app'))"
    by blast
next
  assume "audit_enabled cfg \<and>
    application_state app \<in> {kApplicationStatePreloading, kApplicationStateStopped}"
  then show "suspend cfg app = Inl DCheckFailed"
    by (simp add: suspend_audit_fails)
qed

theorem suspend_transitions_witness:
  "application_state (signalOnLoad (app_in kApplicationStateStarted)) \<in>
       {kApplicationStateStarted, kApplicationStateSuspended} \<and>
   fst (waitForLoad 5 (signalOnLoad (app_in kApplicationStateStarted))) \<and>
   (\<exists>app'. suspend debug_build (signalOnLoad (app_in kApplicationStateStarted)) = Inr app' \<and>
      application_state app' = kApplicationStateSuspended \<and>
      posted app' 1 = [onStateChange kApplicationStatePaused, onFocusChange False,
                       onStateChange kApplicationStateSuspended] \<and>
      \<not> fst (waitForLoad 5 app') \<and> fst (waitForLoad 5 (signalOnLoad app'))) \<and>
   application_state (app_in kApplicationStatePaused) = kApplicationStatePaused \<and>
   (\<exists>app'. suspend debug_build (app_in kApplicationStatePaused) = Inr app' \<and>
      application_state app' = kApplicationStateSuspended \<and>
      posted app' 1 = [onStateChange kApplicationStateSuspended] \<and>
      \<not> fst (waitForLoad 5 app') \<and> fst (waitForLoad 5 (signalOnLoad app'))) \<and>
   audit_enabled debug_build \<and>
   application_state (app_in kApplicationStateStopped) \<in>
       {kApplicationStatePreloading, kApplicationStateStopped} \<and>
   suspend debug_build (app_in kApplicationStateStopped) = Inl DCheckFailed"
  using suspend_transitions [of "signalOnLoad (app_in kApplicationStateStarted)" debug_build 5]
        suspend_transitions [of "app_in kApplicationStatePaused" debug_build 5]
        suspend_transitions [of "app_in kApplicationStateStopped" debug_build 5]
  by (simp add: waitForLoad_manual cong: if_cong) fastforce

text \<open>The claim C8 as stated fails: in a debug build \<^verbatim>\<open>suspend()\<close> called in
  Preloading performs no transition and does not reset the signal, because the audit
  rejects Preloading to Paused.\<close>

theorem suspend_from_Preloading_fails:
  "application_state (app_in kApplicationStatePreloading) \<noteq> kApplicationStatePaused \<and>
   suspend debug_build (app_in kApplicationStatePreloading) = Inl DCheckFailed"
  by (simp add: suspend_def setApplicationState_def auditTransition_def DCHECK_def)

text \<open>C9: the destructor asserts that the application state is Stopped.  It fails
  its check exactly when checks are compiled in and the state is not Stopped, and
  passes otherwise; and an object on which \<^verbatim>\<open>teardown()\<close> has returned passes it.\<close>

theorem Application_dtor_asserts:
  "(Application_dtor cfg app = Inl DCheckFailed \<longleftrightarrow>
      DCHECK_IS_ON cfg \<and> application_state app \<noteq> kApplicationStateStopped) \<and>
   (Application_dtor cfg app = Inr () \<longleftrightarrow>
      \<not> DCHECK_IS_ON cfg \<or> application_state app = kApplicationStateStopped) \<and>
   (teardown cfg app = Inr app' \<longrightarrow> Application_dtor cfg app' = Inr ())"
proof (intro conjI impI)
  show "Application_dtor cfg app = Inl DCheckFailed \<longleftrightarrow>
      DCHECK_IS_ON cfg \<and> application_state app \<noteq> kApplicationStateStopped"
    by (simp add: Application_dtor_def DCHECK_def)
  show "Application_dtor cfg app = Inr () \<longleftrightarrow>
      \<not> DCHECK_IS_ON cfg \<or> application_state app = kApplicationStateStopped"
    by (simp add: Application_dtor_def DCHECK_def)
  assume t: "teardown cfg app = Inr app'"
  have "application_state app' = kApplicationStateStopped"
  proof (cases "application_state app = kApplicationStateStopped")
    case True
    with t show ?thesis
      by (auto simp add: teardown_def setApplicationState_def DLOG_def split: if_splits)
  next
    case False
    with t setApplicationState_Inr [of cfg kApplicationStateStopped app app']
    show ?thesis by (simp add: teardown_def)
  qed
  then show "Application_dtor cfg app' = Inr ()"
    by (simp add: Application_dtor_def DCHECK_def)
qed

theorem Application_dtor_asserts_witness:
  "Application_dtor debug_build (app_in kApplicationStateStarted) = Inl DCheckFailed \<and>
   Application_dtor release_build (app_in kApplicationStateStarted) = Inr () \<and>
   (\<exists>app'. teardown debug_build (app_in kApplicationStateSuspended) = Inr app' \<and>
      Application_dtor debug_build app' = Inr ())"
proof -
  have "\<exists>app'. teardown debug_build (app_in kApplicationStateSuspended) = Inr app'"
    by (simp add: teardown_def setApplicationState_change auditTransition_def DCHECK_def)
  then obtain app' where r: "teardown debug_build (app_in kApplicationStateSuspended) = Inr app'"
    by blast
  from r Application_dtor_asserts [of debug_build "app_in kApplicationStateSuspended" app']
       Application_dtor_asserts [of debug_build "app_in kApplicationStateStarted"]
       Application_dtor_asserts [of release_build "app_in kApplicationStateStarted"]
  show ?thesis by simp
qed

section \<open>polymorphic_downcast\<close>

text \<open>
  The template casts a pointer to a base class down to a pointer to a derived
  class.  Of the \<^verbatim>\<open>C++\<close> object model the function needs this much: every object has
  a dynamic class, its most derived one; \<open>is_base_of M b d\<close> says that \<open>b\<close> is \<open>d\<close>
  or an accessible, unambiguous base class of \<open>d\<close>; a pointer is the class it is
  declared to point to together with the object it points to, \<open>None\<close> for the null
  pointer.  \<^verbatim>\<open>dynamic_cast\<close> yields the null pointer unless the object is of the
  target class; \<^verbatim>\<open>static_cast\<close> does not look at the object and keeps pointing to
  it; \<^verbatim>\<open>==\<close> between pointers of two related classes converts them to the common
  class and compares the objects pointed to.
\<close>

record ('c, 'ob) ObjectModel =
  dynamic_type :: "'ob \<Rightarrow> 'c"
  is_base_of :: "'c \<Rightarrow> 'c \<Rightarrow> bool"

record ('c, 'ob) pointer =
  pointee_class :: 'c
  target :: "'ob option"

definition dynamic_cast :: "('c, 'ob) ObjectModel \<Rightarrow> 'c \<Rightarrow> ('c, 'ob) pointer \<Rightarrow> ('c, 'ob) pointer" where
  "dynamic_cast M derived p =
     \<lparr>pointee_class = derived,
      target = (case target p of
                  None \<Rightarrow> None
                | Some ob \<Rightarrow> if is_base_of M derived (dynamic_type M ob) then Some ob else None)\<rparr>"

definition static_cast :: "'c \<Rightarrow> ('c, 'ob) pointer \<Rightarrow> ('c, 'ob) pointer" where
  "static_cast derived p = \<lparr>pointee_class = derived, target = target p\<rparr>"

definition pointer_eq :: "('c, 'ob) pointer \<Rightarrow> ('c, 'ob) pointer \<Rightarrow> bool" where
  "pointer_eq p q = (target p = target q)"

definition polymorphic_downcast ::
    "('c, 'ob) ObjectModel \<Rightarrow> BuildConfig \<Rightarrow> 'c \<Rightarrow> ('c, 'ob) pointer \<Rightarrow> fatal + ('c, 'ob) pointer" where
  "polymorphic_downcast M cfg derived base =
     and_then (DCHECK cfg (pointer_eq (dynamic_cast M derived base) base)) (\<lambda>_.
     Inr (static_cast derived base))"

text \<open>A hierarchy to run the cast on: object 0 is a Banana, every other one an Apple.\<close>

datatype fruit_class = Fruit | Banana | Apple

definition fruit_model :: "(fruit_class, nat) ObjectModel" where
  "fruit_model =
     \<lparr>dynamic_type = (\<lambda>ob. if ob = 0 then Banana else Apple),
      is_base_of = (\<lambda>b d. b = d \<or> b = Fruit)\<rparr>"

lemma polymorphic_downcast_wrong_type:
  "polymorphic_downcast fruit_model debug_build Banana \<lparr>pointee_class = Fruit, target = Some 1\<rparr> =
     Inl DCheckFailed"
  by (simp add: polymorphic_downcast_def DCHECK_def fruit_model_def pointer_eq_def dynamic_cast_def)

text \<open>C10: \<^verbatim>\<open>polymorphic_downcast\<close> never returns anything but
  \<^verbatim>\<open>static_cast<Derived>(base)\<close>: it returns that pointer or dies in its debug check,
  and returns it in every build without checks.  If
  \<^verbatim>\<open>dynamic_cast<Derived>(base) == base\<close> the check cannot fail, in any build, and the
  pointer returned is declared to point to the derived class and points to the
  object the caller passed in.  For a pointer to an object that condition says
  that the object's dynamic class is the derived class or derived from it.\<close>

theorem polymorphic_downcast_static_cast:
  "(polymorphic_downcast M cfg derived base = Inr (static_cast derived base) \<or>
    polymorphic_downcast M cfg derived base = Inl DCheckFailed) \<and>
   (\<not> DCHECK_IS_ON cfg \<longrightarrow>
      polymorphic_downcast M cfg derived base = Inr (static_cast derived base)) \<and>
   (pointer_eq (dynamic_cast M derived base) base \<longrightarrow>
      polymorphic_downcast M cfg derived base = Inr (static_cast derived base) \<and>
      target (static_cast derived base) = target base \<and>
      pointee_class (static_cast derived base) = derived) \<and>
   (target base = Some ob \<longrightarrow>
      pointer_eq (dynamic_cast M derived base) base = is_base_of M derived (dynamic_type M ob))"
  by (simp add: polymorphic_downcast_def DCHECK_def static_cast_def pointer_eq_def dynamic_cast_def)

theorem polymorphic_downcast_static_cast_witness:
  "pointer_eq (dynamic_cast fruit_model Banana \<lparr>pointee_class = Fruit, target = Some 0\<rparr>)
     \<lparr>pointee_class = Fruit, target = Some 0\<rparr> \<and>
   polymorphic_downcast fruit_model debug_build Banana \<lparr>pointee_class = Fruit, target = Some 0\<rparr> =
     Inr \<lparr>pointee_class = Banana, target = Some 0\<rparr> \<and>
   \<not> DCHECK_IS_ON release_build \<and>
   polymorphic_downcast fruit_model release_build Banana \<lparr>pointee_class = Fruit, target = Some 1\<rparr> =
     Inr \<lparr>pointee_class = Banana, target = Some 1\<rparr>"
  using polymorphic_downcast_static_cast [of fruit_model debug_build Banana
          "\<lparr>pointee_class = Fruit, target = Some 0\<rparr>" 0]
        polymorphic_downcast_static_cast [of fruit_model release_build Banana
          "\<lparr>pointee_class = Fruit, target = Some 1\<rparr>" 1]
  by (simp add: fruit_model_def static_cast_def pointer_eq_def dynamic_cast_def)

section \<open>The promise engine\<close>

subsection \<open>The no-op executor\<close>

text \<open>Modelled from the spec: the enumeration \<^verbatim>\<open>PromiseExecutor::PrerequisitePolicy\<close>, which \<^verbatim>\<open>basis/promise/no_op_promise_executor.h\<close> uses, is
  declared in \<^verbatim>\<open>abstract_promise.h\<close>, which is not among the sources; the header names
  \<^verbatim>\<open>kNever\<close>, the specification's policy None of a node that is never executed
  automatically; \<open>kAny\<close> and \<open>kAll\<close> stand for its AnyOne and AllPrerequisites.\<close>

datatype PrerequisitePolicy = kAll | kAny | kNever

text \<open>The members exist in builds with checks only; the trailing underscore of
  \<^verbatim>\<open>can_resolve_\<close> and \<^verbatim>\<open>can_reject_\<close> is dropped.\<close>

record NoOpPromiseExecutor =
  can_resolve :: bool
  can_reject :: bool

definition kPrerequisitePolicy :: PrerequisitePolicy where
  "kPrerequisitePolicy = kNever"

text \<open>Modelled from the spec: the header declares \<^verbatim>\<open>GetPrerequisitePolicy\<close> and its
  body is in a file that is not among the sources.  The specification says of the
  no-op variant that its prerequisite policy is None, and of every executor that the
  policy is pure and constant for the executor's lifetime.\<close>

definition GetPrerequisitePolicy :: "NoOpPromiseExecutor \<Rightarrow> PrerequisitePolicy" where
  "GetPrerequisitePolicy executor = kNever"

text \<open>C6: the no-op executor's policy constant is the never-execute value, and
  \<^verbatim>\<open>GetPrerequisitePolicy\<close> returns that value for every executor, whatever its
  members hold, hence the same value at every moment of an executor's life.\<close>

theorem NoOpPromiseExecutor_policy:
  "kPrerequisitePolicy = kNever \<and>
   GetPrerequisitePolicy executor = kPrerequisitePolicy \<and>
   GetPrerequisitePolicy executor = GetPrerequisitePolicy executor'"
  by (simp add: kPrerequisitePolicy_def GetPrerequisitePolicy_def)

subsection \<open>Settlement of a promise node\<close>

text \<open>Modelled from the spec: the promise node (\<^verbatim>\<open>abstract_promise.h\<close> and its
  implementation) is not among the sources.  From the specification's data model: the
  settlement state, the one payload slot (a resolved payload, a rejected payload, or
  not yet settled) and the node with its identity.  The edges, the executor and the
  reject policy of a node play no part in the settlement contract and are left out.\<close>

datatype SettlementState = Pending | Resolved | Rejected | Cancelled

datatype ('v, 'e) SettlementValue = NotYetSettled | ResolvedPayload 'v | RejectedPayload 'e

record ('v, 'e) PromiseNode =
  node_id :: nat
  state :: SettlementState
  settled_value :: "('v, 'e) SettlementValue"

datatype SettleError = AlreadySettled

datatype ('v, 'e) value_or_error = Value 'v | Error 'e

text \<open>Modelled from the spec: \<^verbatim>\<open>settle(value_or_error)\<close> takes a pending node to
  Resolved or Rejected and stores the payload; called on a node that is not pending
  it fails with \<open>AlreadySettled\<close>.\<close>

definition settle ::
    "('v, 'e) value_or_error \<Rightarrow> ('v, 'e) PromiseNode \<Rightarrow> SettleError + ('v, 'e) PromiseNode" where
  "settle x node =
     (if state node = Pending then
        (case x of
           Value v \<Rightarrow> Inr (node\<lparr>state := Resolved, settled_value := ResolvedPayload v\<rparr>)
         | Error e \<Rightarrow> Inr (node\<lparr>state := Rejected, settled_value := RejectedPayload e\<rparr>))
      else Inl AlreadySettled)"

text \<open>Modelled from the spec: \<^verbatim>\<open>cancel()\<close> takes a pending node to Cancelled and
  fails with \<open>AlreadySettled\<close> if the node is not pending.\<close>

definition cancel :: "('v, 'e) PromiseNode \<Rightarrow> SettleError + ('v, 'e) PromiseNode" where
  "cancel node =
     (if state node = Pending then Inr (node\<lparr>state := Cancelled\<rparr>) else Inl AlreadySettled)"

text \<open>Modelled from the spec: the settlement interface, \<^verbatim>\<open>resolve(node, value)\<close>,
  \<^verbatim>\<open>reject(node, error)\<close> and \<^verbatim>\<open>cancel(node)\<close>, each succeeding or failing with
  \<open>AlreadySettled\<close>.  \<open>after_attempts\<close> is the node after a series of attempts; a
  failed attempt returns no new node, so the node stays as it is.\<close>

datatype ('v, 'e) SettlementAttempt = resolve 'v | reject 'e | cancel_node

fun attempt ::
    "('v, 'e) SettlementAttempt \<Rightarrow> ('v, 'e) PromiseNode \<Rightarrow> SettleError + ('v, 'e) PromiseNode" where
  "attempt (resolve v) node = settle (Value v) node"
| "attempt (reject e) node = settle (Error e) node"
| "attempt cancel_node node = cancel node"

fun after_attempts ::
    "('v, 'e) SettlementAttempt list \<Rightarrow> ('v, 'e) PromiseNode \<Rightarrow> ('v, 'e) PromiseNode" where
  "after_attempts [] node = node"
| "after_attempts (a # as) node =
     after_attempts as (case attempt a node of Inl _ \<Rightarrow> node | Inr node' \<Rightarrow> node')"

definition new_node :: "nat \<Rightarrow> ('v, 'e) PromiseNode" where
  "new_node i = \<lparr>node_id = i, state = Pending, settled_value = NotYetSettled\<rparr>"

lemma attempt_settled: "state node \<noteq> Pending \<Longrightarrow> attempt a node = Inl AlreadySettled"
  by (cases a) (simp_all add: settle_def cancel_def)

lemma after_attempts_settled: "state node \<noteq> Pending \<Longrightarrow> after_attempts as node = node"
  by (induction as) (simp_all add: attempt_settled)

lemma attempt_Inr:
  "attempt a node = Inr node' \<Longrightarrow> state node = Pending \<and> state node' \<noteq> Pending"
  by (cases a) (auto simp add: settle_def cancel_def split: if_splits value_or_error.splits)

text \<open>C5: settlement is monotonic.  On a node that has left Pending every settlement
  attempt (resolve, reject or cancel) fails with \<open>AlreadySettled\<close>, and after any
  series of attempts the node, with its state and its value, is what it was: it
  neither returns to Pending nor moves to another settled state.  An attempt that
  succeeds was made on a pending node and leaves it settled, so at most one
  attempt on a node ever succeeds.\<close>

theorem settlement_monotonic:
  "(state node \<noteq> Pending \<longrightarrow>
      attempt a node = Inl AlreadySettled \<and> after_attempts as node = node) \<and>
   (attempt a node = Inr node' \<longrightarrow>
      state node = Pending \<and> state node' \<noteq> Pending \<and> after_attempts as node' = node')"
proof (intro conjI impI)
  assume "state node \<noteq> Pending"
  then show "attempt a node = Inl AlreadySettled" by (rule attempt_settled)
next
  assume "state node \<noteq> Pending"
  then show "after_attempts as node = node" by (rule after_attempts_settled)
next
  assume r: "attempt a node = Inr node'"
  then show "state node = Pending" by (simp add: attempt_Inr)
  from r show "state node' \<noteq> Pending" by (simp add: attempt_Inr)
  then show "after_attempts as node' = node'" by (rule after_attempts_settled)
qed

theorem settlement_monotonic_witness:
  "attempt (resolve 5) (new_node 1 :: (nat, string) PromiseNode) =
     Inr \<lparr>node_id = 1, state = Resolved, settled_value = ResolvedPayload 5\<rparr> \<and>
   state (new_node 1 :: (nat, string) PromiseNode) = Pending \<and>
   state \<lparr>node_id = 1, state = Resolved, settled_value = ResolvedPayload (5::nat)\<rparr> \<noteq> Pending \<and>
   attempt (reject ''late'')
     \<lparr>node_id = 1, state = Resolved, settled_value = ResolvedPayload (5::nat)\<rparr> = Inl AlreadySettled \<and>
   after_attempts [reject ''late'', cancel_node, resolve 7]
     \<lparr>node_id = 1, state = Resolved, settled_value = ResolvedPayload (5::nat)\<rparr> =
     \<lparr>node_id = 1, state = Resolved, settled_value = ResolvedPayload 5\<rparr>"
  using settlement_monotonic [of "new_node 1 :: (nat, string) PromiseNode" "resolve 5"
          "[reject ''late'', cancel_node, resolve 7]"
          "\<lparr>node_id = 1, state = Resolved, settled_value = ResolvedPayload 5\<rparr>"]
        settlement_monotonic [of "\<lparr>node_id = 1, state = Resolved, settled_value = ResolvedPayload (5::nat)\<rparr>"
          "reject ''late''" "[reject ''late'', cancel_node, resolve 7]"]
  by (simp add: new_node_def settle_def)

end
